theory Spec2Isabelle
  imports Complex_Main
begin

unbundle bit_operations_syntax

section \<open>Data model of the text input plugin (textinput.go)\<close>

text \<open>
  Go's \<open>int\<close>, \<open>glfw.Key\<close>, \<open>glfw.Action\<close> and \<open>glfw.ModifierKey\<close> are integer types;
  none of the arithmetic below can overflow (only comparisons, bitwise AND with a single
  bit and bitwise OR of four fixed bits), so they are modelled as \<open>int\<close>.
  A \<open>rune\<close> is a code point, stored and never inspected here. A \<open>[]byte\<close> is a
  list of 8-bit characters, which is what \<open>string\<close> is. The client handle is a \<open>float64\<close> decoded from a JSON
  number; the code only stores it and compares it with \<open>0\<close>, so it is modelled as a
  real number (a JSON number is never a NaN or an infinity, and \<open>-0 == 0\<close> in Go).
\<close>

type_synonym Key = int
type_synonym Action = int
type_synonym ModifierKey = int
type_synonym rune = int
type_synonym bytes = string

text \<open>
  A Go \<open>string\<close> that holds text (the text of the field, the clipboard, a selection) is
  modelled as the sequence of its code points, so that the conversion \<open>[]rune(s)\<close> is
  \<open>s\<close> itself. Messages and method names stay plain strings.
\<close>

type_synonym gostring = "rune list"

text \<open>Constants of the glfw binding (v3.2) the source refers to.\<close>

definition KeyEscape :: Key where "KeyEscape = 256"
definition KeyEnter :: Key where "KeyEnter = 257"
definition KeyBackspace :: Key where "KeyBackspace = 259"
definition KeyDelete :: Key where "KeyDelete = 261"
definition KeyRight :: Key where "KeyRight = 262"
definition KeyLeft :: Key where "KeyLeft = 263"
definition KeyHome :: Key where "KeyHome = 268"
definition KeyEnd :: Key where "KeyEnd = 269"

definition Release :: Action where "Release = 0"
definition Press :: Action where "Press = 1"
definition Repeat :: Action where "Repeat = 2"

definition ModShift :: ModifierKey where "ModShift = 1"
definition ModControl :: ModifierKey where "ModControl = 2"
definition ModAlt :: ModifierKey where "ModAlt = 4"
definition ModSuper :: ModifierKey where "ModSuper = 8"

text \<open>Android KeyEvent constants, lines 14 to 17.\<close>

definition androidMetaStateShift :: int where "androidMetaStateShift = push_bit 0 1"
definition androidMetaStateAlt :: int where "androidMetaStateAlt = push_bit 1 1"
definition androidMetaStateCtrl :: int where "androidMetaStateCtrl = push_bit 12 1"
definition androidMetaStateMeta :: int where "androidMetaStateMeta = push_bit 16 1"

text \<open>
  The type \<open>KeyboardShortcuts\<close> is declared outside the files at hand; the callback reads
  its four fields \<open>SelectAll\<close>, \<open>Copy\<close>, \<open>Cut\<close> and \<open>Paste\<close>, each a key.
\<close>

record KeyboardShortcuts =
  SelectAll :: Key
  Copy :: Key
  Cut :: Key
  Paste :: Key

text \<open>
  The struct \<open>textinputPlugin\<close>, without the handles of the messenger, the window and
  the two channels: what is sent through them is recorded as a list of effects.
\<close>

record textinputPlugin =
  keyboardLayout :: KeyboardShortcuts
  modifierKey :: ModifierKey
  wordTravellerKey :: ModifierKey
  wordTravellerKeyShift :: ModifierKey
  clientID :: real
  word :: "rune list"
  selectionBase :: int
  selectionExtent :: int

text \<open>
  The struct \<open>argsEditingState\<close> that \<open>handleSetEditingState\<close> decodes into; the handler
  reads its fields \<open>Text\<close>, \<open>SelectionBase\<close> and \<open>SelectionExtent\<close>.
\<close>

record argsEditingState =
  Text :: gostring
  SelectionBase :: int
  SelectionExtent :: int

text \<open>A decoded JSON value, as \<open>json.Unmarshal\<close> stores it into an \<open>interface{}\<close>.\<close>

datatype jvalue =
  JNull
| JBool bool
| JNumber real
| JString string
| JArray "jvalue list"
| JObject "(string \<times> jvalue) list"

text \<open>
  The \<open>arguments interface{}\<close> a handler receives: a \<open>json.RawMessage\<close> or a value of
  another dynamic type, on which the type assertion panics.
\<close>

datatype argument = RawMessage bytes | NotRawMessage

text \<open>
  Errors and panics of the handlers. \<open>Wrapped msg e\<close> is \<open>errors.Wrap(e, msg)\<close> around
  the error text \<open>e\<close> of \<open>json.Unmarshal\<close>.
\<close>

datatype error =
  ErrorNew string
| Wrapped string string
| PanicTypeAssertion
| PanicIndexOutOfRange

section \<open>The Editing State Store handlers\<close>

text \<open>
  Each handler returns its \<open>(reply, err)\<close> pair and the plugin after the call. The reply
  is \<open>nil\<close> on every path, so the result is \<open>Inl\<close> of the error or panic, or \<open>Inr ()\<close>.
  \<open>json.Unmarshal\<close> belongs to Go's standard library: the handlers take it as a
  parameter, one for each target type.
\<close>

definition handleSetClient ::
  "(bytes \<Rightarrow> string + jvalue list) \<Rightarrow> textinputPlugin \<Rightarrow> argument \<Rightarrow>
     (error + unit) \<times> textinputPlugin" where
  "handleSetClient unmarshal p arguments =
     (case arguments of
        NotRawMessage \<Rightarrow> (Inl PanicTypeAssertion, p)
      | RawMessage raw \<Rightarrow>
          (case unmarshal raw of
             Inl e \<Rightarrow> (Inl (Wrapped ''failed to decode json arguments for handleSetClient'' e), p)
           | Inr args \<Rightarrow>
               (case args of
                  [] \<Rightarrow> (Inl PanicIndexOutOfRange, p)
                | JNumber x # rest \<Rightarrow> (Inr (), p\<lparr>clientID := x\<rparr>)
                | other # rest \<Rightarrow> (Inl PanicTypeAssertion, p))))"

definition handleClearClient ::
  "textinputPlugin \<Rightarrow> argument \<Rightarrow> (error + unit) \<times> textinputPlugin" where
  "handleClearClient p arguments = (Inr (), p\<lparr>clientID := 0\<rparr>)"

definition handleSetEditingState ::
  "(bytes \<Rightarrow> string + argsEditingState) \<Rightarrow> textinputPlugin \<Rightarrow> argument \<Rightarrow>
     (error + unit) \<times> textinputPlugin" where
  "handleSetEditingState unmarshal p arguments =
     (if clientID p = 0
      then (Inl (ErrorNew ''cannot set editing state when no client is selected''), p)
      else (case arguments of
              NotRawMessage \<Rightarrow> (Inl PanicTypeAssertion, p)
            | RawMessage raw \<Rightarrow>
                (case unmarshal raw of
                   Inl e \<Rightarrow>
                     (Inl (Wrapped ''failed to decode json arguments for handleSetEditingState'' e), p)
                 | Inr editingState \<Rightarrow>
                     (Inr (), p\<lparr>word := Text editingState,
                                selectionBase := SelectionBase editingState,
                                selectionExtent := SelectionExtent editingState\<rparr>))))"

section \<open>The key callback\<close>

text \<open>
  What the callback does to the outside, in the order it does it: a method call on the
  navigation channel, a line printed with \<open>fmt.Printf\<close> (the format and its argument),
  a write of the clipboard, a method call on the text input channel made by one of the
  editing methods, and a message sent on the key event channel.
\<close>

record keyEvent =
  KeyCode :: int
  Keymap :: string
  Type :: string
  MetaState :: int

datatype printarg = ArgError string | ArgAction Action

datatype invoke = Invoke string jvalue

datatype effect =
  NavigationInvokeMethod string
| Printf string printarg
| SetClipboardString gostring
| TextChannelInvoke invoke
| KeyEventSend keyEvent

text \<open>
  The host of one callback: the error \<open>InvokeMethod("popRoute", nil)\<close> returns, if any,
  and the result of \<open>window.GetClipboardString()\<close> (\<open>Inl\<close> the error).
\<close>

record host =
  popRouteErr :: "string option"
  GetClipboardString :: "string + gostring"

text \<open>
  The editing methods of \<open>textinputPlugin\<close> that the callback calls are declared outside
  the files at hand. The callback takes them as parameters: each returns the plugin
  after the call and the calls it made on the text input channel. Nothing is assumed
  about what they compute.
\<close>

record editing =
  addChar :: "rune list \<Rightarrow> textinputPlugin \<Rightarrow> textinputPlugin \<times> invoke list"
  performAction :: "string \<Rightarrow> textinputPlugin \<Rightarrow> textinputPlugin \<times> invoke list"
  MoveCursorHome :: "bool \<Rightarrow> bool \<Rightarrow> bool \<Rightarrow> bool \<Rightarrow> textinputPlugin \<Rightarrow> textinputPlugin \<times> invoke list"
  MoveCursorEnd :: "bool \<Rightarrow> bool \<Rightarrow> bool \<Rightarrow> bool \<Rightarrow> textinputPlugin \<Rightarrow> textinputPlugin \<times> invoke list"
  MoveCursorLeft :: "bool \<Rightarrow> bool \<Rightarrow> bool \<Rightarrow> bool \<Rightarrow> textinputPlugin \<Rightarrow> textinputPlugin \<times> invoke list"
  MoveCursorRight :: "bool \<Rightarrow> bool \<Rightarrow> bool \<Rightarrow> bool \<Rightarrow> textinputPlugin \<Rightarrow> textinputPlugin \<times> invoke list"
  Delete :: "bool \<Rightarrow> bool \<Rightarrow> bool \<Rightarrow> bool \<Rightarrow> textinputPlugin \<Rightarrow> textinputPlugin \<times> invoke list"
  Backspace :: "bool \<Rightarrow> bool \<Rightarrow> bool \<Rightarrow> bool \<Rightarrow> textinputPlugin \<Rightarrow> textinputPlugin \<times> invoke list"
  SelectAllText :: "textinputPlugin \<Rightarrow> textinputPlugin \<times> invoke list"
  isSelected :: "textinputPlugin \<Rightarrow> bool"
  GetSelectedText :: "textinputPlugin \<Rightarrow> int \<times> int \<times> gostring"
  RemoveSelectedText :: "textinputPlugin \<Rightarrow> textinputPlugin \<times> invoke list"

text \<open>The platform key profile \<open>InitPlugin\<close> sets from \<open>runtime.GOOS\<close>, lines 53 to 62.\<close>

definition InitPlugin :: "string \<Rightarrow> textinputPlugin \<Rightarrow> textinputPlugin" where
  "InitPlugin GOOS p =
     (if GOOS = ''darwin''
      then p\<lparr>modifierKey := ModSuper,
             wordTravellerKey := ModAlt,
             wordTravellerKeyShift := ModAlt OR ModShift\<rparr>
      else p\<lparr>modifierKey := ModControl,
             wordTravellerKey := ModControl,
             wordTravellerKeyShift := ModControl OR ModShift\<rparr>)"

text \<open>The four flags the \<open>switch\<close> of lines 118 to 132 sets: the first case that matches.\<close>

record modsFlags =
  modsIsModfifier :: bool
  modsIsShift :: bool
  modsIsWordModifierShift :: bool
  modsIsWordModifier :: bool

definition noFlags :: modsFlags where
  "noFlags = \<lparr>modsIsModfifier = False, modsIsShift = False,
              modsIsWordModifierShift = False, modsIsWordModifier = False\<rparr>"

definition classifyMods :: "textinputPlugin \<Rightarrow> ModifierKey \<Rightarrow> modsFlags" where
  "classifyMods p mods =
     (if mods = wordTravellerKeyShift p then noFlags\<lparr>modsIsWordModifierShift := True\<rparr>
      else if mods = wordTravellerKey p then noFlags\<lparr>modsIsWordModifier := True\<rparr>
      else if mods = modifierKey p then noFlags\<lparr>modsIsModfifier := True\<rparr>
      else if mods = ModShift then noFlags\<lparr>modsIsShift := True\<rparr>
      else noFlags)"

definition conditionalInt :: "bool \<Rightarrow> int \<Rightarrow> int" where
  "conditionalInt condition val1 = (if condition then val1 else 0)"

definition metaState :: "ModifierKey \<Rightarrow> int" where
  "metaState mods =
     conditionalInt (mods AND ModShift \<noteq> 0) androidMetaStateShift OR
     conditionalInt (mods AND ModAlt \<noteq> 0) androidMetaStateAlt OR
     conditionalInt (mods AND ModControl \<noteq> 0) androidMetaStateCtrl OR
     conditionalInt (mods AND ModSuper \<noteq> 0) androidMetaStateMeta"

text \<open>The character \<open>'\n'\<close>.\<close>

definition newline :: rune where "newline = 10"

definition calls :: "textinputPlugin \<times> invoke list \<Rightarrow> textinputPlugin \<times> effect list" where
  "calls r = (fst r, map TextChannelInvoke (snd r))"

text \<open>
  Lines 147 to 201, the \<open>switch key\<close> run with a client focused. The result says whether
  the callback returned inside the switch, and gives the plugin and the effects so far.
\<close>

definition editingSwitch ::
  "editing \<Rightarrow> host \<Rightarrow> textinputPlugin \<Rightarrow> Key \<Rightarrow> ModifierKey \<Rightarrow>
     bool \<times> textinputPlugin \<times> effect list" where
  "editingSwitch ed h p key mods =
     (let f = classifyMods p mods;
          a = modsIsModfifier f; b = modsIsShift f;
          c = modsIsWordModifierShift f; d = modsIsWordModifier f
      in
      if key = KeyEnter then
        (if mods = modifierKey p then (False, calls (performAction ed ''done'' p))
         else (let r1 = addChar ed [newline] p;
                   r2 = performAction ed ''newline'' (fst r1)
               in (False, calls (fst r2, snd r1 @ snd r2))))
      else if key = KeyHome then (False, calls (MoveCursorHome ed a b c d p))
      else if key = KeyEnd then (False, calls (MoveCursorEnd ed a b c d p))
      else if key = KeyLeft then (False, calls (MoveCursorLeft ed a b c d p))
      else if key = KeyRight then (False, calls (MoveCursorRight ed a b c d p))
      else if key = KeyDelete then (False, calls (Delete ed a b c d p))
      else if key = KeyBackspace then (False, calls (Backspace ed a b c d p))
      else if key = SelectAll (keyboardLayout p) then
        (if mods = modifierKey p then (False, calls (SelectAllText ed p))
         else (False, p, []))
      else if key = Copy (keyboardLayout p) then
        (if mods = modifierKey p \<and> isSelected ed p
         then (False, p, [SetClipboardString (snd (snd (GetSelectedText ed p)))])
         else (False, p, []))
      else if key = Cut (keyboardLayout p) then
        (if mods = modifierKey p \<and> isSelected ed p
         then (let r = calls (RemoveSelectedText ed p)
               in (False, fst r, SetClipboardString (snd (snd (GetSelectedText ed p))) # snd r))
         else (False, p, []))
      else if key = Paste (keyboardLayout p) then
        (if mods = modifierKey p then
           (case GetClipboardString h of
              Inl err \<Rightarrow>
                (True, p, [Printf ''go-flutter: unable to get the clipboard content: %v\<newline>''
                            (ArgError err)])
            | Inr clpString \<Rightarrow> (False, calls (addChar ed clpString p)))
         else (False, p, []))
      else (False, p, []))"

text \<open>Lines 213 to 235: the normalized key event, or the diagnostic for another action.\<close>

definition keyEvents :: "Key \<Rightarrow> Action \<Rightarrow> ModifierKey \<Rightarrow> effect list" where
  "keyEvents key action mods =
     (if action = Release then
        [KeyEventSend \<lparr>KeyCode = key, Keymap = ''android'', Type = ''keyup'',
                       MetaState = metaState mods\<rparr>]
      else if action = Press then
        [KeyEventSend \<lparr>KeyCode = key, Keymap = ''android'', Type = ''keydown'',
                       MetaState = metaState mods\<rparr>]
      else [Printf ''go-flutter: failed to send key event, action: %v\<newline>'' (ArgAction action)])"

definition glfwKeyCallback ::
  "editing \<Rightarrow> host \<Rightarrow> textinputPlugin \<Rightarrow> Key \<Rightarrow> int \<Rightarrow> Action \<Rightarrow> ModifierKey \<Rightarrow>
     textinputPlugin \<times> effect list" where
  "glfwKeyCallback ed h p key scancode action mods =
     (if key = KeyEscape \<and> action = Press then
        (p, NavigationInvokeMethod ''popRoute'' #
            (case popRouteErr h of
               None \<Rightarrow> []
             | Some err \<Rightarrow>
                 [Printf ''go-flutter: failed to pop route after escape key press: %v\<newline>''
                    (ArgError err)]))
      else if action = Repeat \<or> action = Press then
        (if clientID p = 0 then (p, [])
         else (case editingSwitch ed h p key mods of
                 (returned, p', es) \<Rightarrow>
                   if returned then (p', es) else (p', es @ keyEvents key action mods)))
      else (p, keyEvents key action mods))"

text \<open>The key events among the effects of a run, in the order they were sent.\<close>

fun sentKeyEvents :: "effect list \<Rightarrow> keyEvent list" where
  "sentKeyEvents [] = []"
| "sentKeyEvents (KeyEventSend e # es) = e # sentKeyEvents es"
| "sentKeyEvents (other # es) = sentKeyEvents es"

section \<open>The JSON message codec (plugin/json-message-codec.go)\<close>

text \<open>
  The Go values used below: \<open>nil\<close>, a \<open>bool\<close>, a \<open>[]byte\<close> and a \<open>[]interface{}\<close> of
  such values. On them \<open>json.Marshal\<close> returns no error and writes \<open>null\<close>, \<open>true\<close> or
  \<open>false\<close>, the standard base64 text of the bytes in double quotes, and the elements
  between brackets, separated by commas. Slices stand for non-nil slices.
\<close>

datatype gvalue =
  GNil
| GBool bool
| GBytes bytes
| GSlice "gvalue list"

definition b64alphabet :: string where
  "b64alphabet = ''ABCDEFGHIJKLMNOPQRSTUVWXYZabcdefghijklmnopqrstuvwxyz0123456789+/''"

definition b64char :: "nat \<Rightarrow> char" where
  "b64char n = b64alphabet ! (n mod 64)"

fun base64 :: "bytes \<Rightarrow> string" where
  "base64 [] = []"
| "base64 [a] =
     (let x = of_char a
      in [b64char (x div 4), b64char ((x mod 4) * 16), CHR ''='', CHR ''=''])"
| "base64 [a, b] =
     (let x = of_char a; y = of_char b
      in [b64char (x div 4), b64char ((x mod 4) * 16 + y div 16),
          b64char ((y mod 16) * 4), CHR ''=''])"
| "base64 (a # b # c # rest) =
     (let x = of_char a; y = of_char b; z = of_char c
      in [b64char (x div 4), b64char ((x mod 4) * 16 + y div 16),
          b64char ((y mod 16) * 4 + z div 64), b64char (z mod 64)] @ base64 rest)"

fun joinComma :: "string list \<Rightarrow> string" where
  "joinComma [] = []"
| "joinComma [x] = x"
| "joinComma (x # y # ys) = x @ '','' @ joinComma (y # ys)"

fun marshalText :: "gvalue \<Rightarrow> string" where
  "marshalText GNil = ''null''"
| "marshalText (GBool b) = (if b then ''true'' else ''false'')"
| "marshalText (GBytes b) = [CHR 0x22] @ base64 b @ [CHR 0x22]"
| "marshalText (GSlice xs) = ''['' @ joinComma (map marshalText xs) @ '']''"

definition jsonMarshal :: "gvalue \<Rightarrow> string + bytes" where
  "jsonMarshal v = Inr (marshalText v)"

text \<open>
  \<open>EncodeMessage\<close> marshals a pointer to the message, which \<open>json.Marshal\<close> writes as
  the message itself. \<open>DecodeMessage\<close> marshals a slice holding the bytes it was given
  and returns the bytes of that text as the message.
\<close>

definition EncodeMessage :: "gvalue \<Rightarrow> string + bytes" where
  "EncodeMessage message = jsonMarshal message"

definition DecodeMessage :: "bytes \<Rightarrow> string + gvalue" where
  "DecodeMessage binaryMessage =
     (case jsonMarshal (GSlice [GBytes binaryMessage]) of
        Inl err \<Rightarrow> Inl err
      | Inr b \<Rightarrow> Inr (GBytes b))"

section \<open>Derived notions and example values\<close>

text \<open>The selection invariant of the data model: base and extent lie within the text.\<close>

definition selectionInRange :: "textinputPlugin \<Rightarrow> bool" where
  "selectionInRange p =
     (0 \<le> selectionBase p \<and> selectionBase p \<le> int (length (word p)) \<and>
      0 \<le> selectionExtent p \<and> selectionExtent p \<le> int (length (word p)))"

text \<open>
  A press of a key followed by its release: two runs of the callback, the second on the
  plugin the first one left, with the effects of both in order.
\<close>

definition pressThenRelease ::
  "editing \<Rightarrow> host \<Rightarrow> host \<Rightarrow> textinputPlugin \<Rightarrow> Key \<Rightarrow> int \<Rightarrow> ModifierKey \<Rightarrow> ModifierKey \<Rightarrow>
     textinputPlugin \<times> effect list" where
  "pressThenRelease ed h1 h2 p key scancode mods1 mods2 =
     (let r1 = glfwKeyCallback ed h1 p key scancode Press mods1;
          r2 = glfwKeyCallback ed h2 (fst r1) key scancode Release mods2
      in (fst r2, snd r1 @ snd r2))"

text \<open>
  Values for the examples: a decoder that yields a given value, the QWERTY shortcut
  bindings, a plugin with client 7 focused on the default key profile, editing methods
  that do nothing, a host whose calls succeed and a host whose clipboard read fails.
\<close>

definition decodesTo :: "'a \<Rightarrow> bytes \<Rightarrow> string + 'a" where
  "decodesTo v raw = Inr v"

definition qwertyLayout :: KeyboardShortcuts where
  "qwertyLayout = \<lparr>SelectAll = 65, Copy = 67, Cut = 88, Paste = 86\<rparr>"

definition focusedPlugin :: textinputPlugin where
  "focusedPlugin =
     \<lparr>keyboardLayout = qwertyLayout, modifierKey = ModControl,
      wordTravellerKey = ModControl, wordTravellerKeyShift = ModControl OR ModShift,
      clientID = 7, word = [104, 105], selectionBase = 1, selectionExtent = 2\<rparr>"

definition idleEditing :: editing where
  "idleEditing =
     \<lparr>addChar = (\<lambda>cs p. (p, [])), performAction = (\<lambda>a p. (p, [])),
      MoveCursorHome = (\<lambda>a b c d p. (p, [])), MoveCursorEnd = (\<lambda>a b c d p. (p, [])),
      MoveCursorLeft = (\<lambda>a b c d p. (p, [])), MoveCursorRight = (\<lambda>a b c d p. (p, [])),
      Delete = (\<lambda>a b c d p. (p, [])), Backspace = (\<lambda>a b c d p. (p, [])),
      SelectAllText = (\<lambda>p. (p, [])), isSelected = (\<lambda>p. False),
      GetSelectedText = (\<lambda>p. (0, 0, [])), RemoveSelectedText = (\<lambda>p. (p, []))\<rparr>"

definition quietHost :: host where
  "quietHost = \<lparr>popRouteErr = None, GetClipboardString = Inr []\<rparr>"

definition failingClipboard :: host where
  "failingClipboard = \<lparr>popRouteErr = None, GetClipboardString = Inl ''clipboard unavailable''\<rparr>"

section \<open>Auxiliary facts\<close>

lemma metaState_sum:
  "metaState mods =
     (if mods AND ModShift \<noteq> 0 then 1 else 0) + (if mods AND ModAlt \<noteq> 0 then 2 else 0) +
     (if mods AND ModControl \<noteq> 0 then 4096 else 0) + (if mods AND ModSuper \<noteq> 0 then 65536 else 0)"
  by (simp add: metaState_def conditionalInt_def androidMetaStateShift_def
      androidMetaStateAlt_def androidMetaStateCtrl_def androidMetaStateMeta_def)

lemma sentKeyEvents_append: "sentKeyEvents (xs @ ys) = sentKeyEvents xs @ sentKeyEvents ys"
  by (induction xs rule: sentKeyEvents.induct) simp_all

lemma sentKeyEvents_calls: "sentKeyEvents (snd (calls r)) = []"
proof -
  have "sentKeyEvents (map TextChannelInvoke xs) = []" for xs
    by (induction xs) simp_all
  then show ?thesis by (simp add: calls_def)
qed

lemma editingSwitch_returned:
  "fst (editingSwitch ed h p key mods) \<Longrightarrow>
     key = Paste (keyboardLayout p) \<and> mods = modifierKey p \<and>
     (\<exists>err. GetClipboardString h = Inl err)"
  by (auto simp: editingSwitch_def Let_def split: if_splits sum.splits)

lemma editingSwitch_no_key_event:
  "sentKeyEvents (snd (snd (editingSwitch ed h p key mods))) = []"
  by (auto simp: editingSwitch_def Let_def sentKeyEvents_calls split: sum.splits prod.splits)

lemma DecodeMessage_never_fails: "\<exists>m. DecodeMessage b = Inr (GBytes m)"
  by (simp add: DecodeMessage_def jsonMarshal_def)

section \<open>The JSON message codec\<close>

text \<open>
  Claim C1: decoding the bytes produced by encoding a value yields the value again, and
  \<open>DecodeMessage\<close> fails on malformed bytes. The code does neither. \<open>DecodeMessage\<close>
  calls \<open>json.Marshal\<close> on a slice holding its input, so it returns the JSON text of
  that slice as a byte message and never reports an error: the encoding \<open>null\<close> of
  \<open>nil\<close> comes back as the bytes \<open>["bnVsbA=="]\<close>, and the malformed payload \<open>{\<close> as
  the bytes \<open>["ew=="]\<close>.
\<close>

theorem DecodeMessage_marshals_its_input:
  "EncodeMessage GNil = Inr ''null'' \<and>
   DecodeMessage ''null'' = Inr (GBytes ''[\"bnVsbA==\"]'') \<and>
   DecodeMessage ''{'' = Inr (GBytes ''[\"ew==\"]'')"
  by (simp add: EncodeMessage_def DecodeMessage_def jsonMarshal_def b64char_def b64alphabet_def)

section \<open>The Editing State Store\<close>

text \<open>
  Claim C2, as stated, fails: with client 7 focused, \<open>setEditingState\<close> of the text
  \<open>abc\<close> with base \<open>-1\<close> and extent \<open>10\<close> stores both as given, outside the text.
\<close>

theorem setEditingState_out_of_range_counterexample:
  "\<not> selectionInRange
       (snd (handleSetEditingState
               (decodesTo \<lparr>Text = [97, 98, 99], SelectionBase = - 1, SelectionExtent = 10\<rparr>)
               focusedPlugin
               (RawMessage ''{\"text\":\"abc\",\"selectionBase\":-1,\"selectionExtent\":10}'')))"
  by (simp add: handleSetEditingState_def decodesTo_def focusedPlugin_def selectionInRange_def)

text \<open>
  Claim C2, amended: with a client focused and a payload that decodes,
  \<open>setEditingState\<close> replaces text, base and extent by the decoded ones as they are,
  without clamping; afterwards the selection lies within the text exactly when the
  decoded base and extent do. \<open>setClient\<close> and \<open>clearClient\<close> keep the invariant as it is.
\<close>

theorem setEditingState_stores_unclamped:
  "clientID p \<noteq> 0 \<Longrightarrow> unmarshal raw = Inr st \<Longrightarrow>
     handleSetEditingState unmarshal p (RawMessage raw) =
       (Inr (), p\<lparr>word := Text st, selectionBase := SelectionBase st,
                  selectionExtent := SelectionExtent st\<rparr>) \<and>
     selectionInRange (snd (handleSetEditingState unmarshal p (RawMessage raw))) =
       (0 \<le> SelectionBase st \<and> SelectionBase st \<le> int (length (Text st)) \<and>
        0 \<le> SelectionExtent st \<and> SelectionExtent st \<le> int (length (Text st))) \<and>
     selectionInRange (snd (handleSetClient unmarshalArgs p arguments)) = selectionInRange p \<and>
     selectionInRange (snd (handleClearClient p arguments)) = selectionInRange p"
  by (auto simp: handleSetEditingState_def handleSetClient_def handleClearClient_def
      selectionInRange_def split: argument.splits sum.splits list.splits jvalue.splits)

theorem setEditingState_stores_unclamped_witness:
  "clientID focusedPlugin \<noteq> 0 \<and>
   handleSetEditingState
       (decodesTo \<lparr>Text = [97, 98, 99], SelectionBase = 0, SelectionExtent = 3\<rparr>)
       focusedPlugin
       (RawMessage ''{\"text\":\"abc\",\"selectionBase\":0,\"selectionExtent\":3}'') =
     (Inr (), focusedPlugin\<lparr>word := [97, 98, 99], selectionBase := 0, selectionExtent := 3\<rparr>) \<and>
   selectionInRange
     (snd (handleSetEditingState
             (decodesTo \<lparr>Text = [97, 98, 99], SelectionBase = 0, SelectionExtent = 3\<rparr>)
             focusedPlugin
             (RawMessage ''{\"text\":\"abc\",\"selectionBase\":0,\"selectionExtent\":3}'')))"
proof -
  let ?st = "\<lparr>Text = [97, 98, 99], SelectionBase = 0, SelectionExtent = 3\<rparr>"
  let ?raw = "''{\"text\":\"abc\",\"selectionBase\":0,\"selectionExtent\":3}''"
  have h1: "clientID focusedPlugin \<noteq> 0" by (simp add: focusedPlugin_def)
  have h2: "decodesTo ?st ?raw = Inr ?st" by (simp add: decodesTo_def)
  from setEditingState_stores_unclamped
    [of focusedPlugin "decodesTo ?st" ?raw ?st "decodesTo []" NotRawMessage, OF h1 h2] h1
  show ?thesis by auto
qed

text \<open>
  Claim C3: for every arguments payload, \<open>setEditingState\<close> with the focused client at
  the sentinel \<open>0\<close> returns the error "cannot set editing state when no client is
  selected" and leaves the whole plugin state as it was.
\<close>

theorem setEditingState_no_client:
  "clientID p = 0 \<Longrightarrow>
     handleSetEditingState unmarshal p arguments =
       (Inl (ErrorNew ''cannot set editing state when no client is selected''), p)"
  by (simp add: handleSetEditingState_def)

theorem setEditingState_no_client_witness:
  "clientID (focusedPlugin\<lparr>clientID := 0\<rparr>) = 0 \<and>
   handleSetEditingState (decodesTo \<lparr>Text = [120], SelectionBase = 0, SelectionExtent = 1\<rparr>)
       (focusedPlugin\<lparr>clientID := 0\<rparr>)
       (RawMessage ''{\"text\":\"x\",\"selectionBase\":0,\"selectionExtent\":1}'') =
     (Inl (ErrorNew ''cannot set editing state when no client is selected''),
      focusedPlugin\<lparr>clientID := 0\<rparr>)"
proof -
  have h: "clientID (focusedPlugin\<lparr>clientID := 0\<rparr>) = 0" by simp
  from setEditingState_no_client [OF h] h show ?thesis by blast
qed

text \<open>
  Claim C8: \<open>setClient\<close> with arguments that decode to a list starting with the number
  \<open>x\<close> sets the focused client to \<open>x\<close>, and \<open>clearClient\<close> sets it to \<open>0\<close>; neither,
  on any arguments, alters the stored text or the selection base and extent.
\<close>

theorem setClient_clearClient_frame:
  "(unmarshal raw = Inr (JNumber x # rest) \<longrightarrow>
      handleSetClient unmarshal p (RawMessage raw) = (Inr (), p\<lparr>clientID := x\<rparr>)) \<and>
   word (snd (handleSetClient unmarshal p arguments)) = word p \<and>
   selectionBase (snd (handleSetClient unmarshal p arguments)) = selectionBase p \<and>
   selectionExtent (snd (handleSetClient unmarshal p arguments)) = selectionExtent p \<and>
   handleClearClient p arguments = (Inr (), p\<lparr>clientID := 0\<rparr>) \<and>
   clientID (snd (handleClearClient p arguments)) = 0 \<and>
   word (snd (handleClearClient p arguments)) = word p \<and>
   selectionBase (snd (handleClearClient p arguments)) = selectionBase p \<and>
   selectionExtent (snd (handleClearClient p arguments)) = selectionExtent p"
  by (auto simp: handleSetClient_def handleClearClient_def
      split: argument.splits sum.splits list.splits jvalue.splits)

theorem setClient_clearClient_frame_witness:
  "handleSetClient (decodesTo [JNumber 7, JObject []]) (focusedPlugin\<lparr>clientID := 0\<rparr>)
       (RawMessage ''[7,{}]'') = (Inr (), focusedPlugin\<lparr>clientID := 7\<rparr>) \<and>
   handleClearClient focusedPlugin NotRawMessage = (Inr (), focusedPlugin\<lparr>clientID := 0\<rparr>)"
proof -
  have h: "decodesTo [JNumber 7, JObject []] ''[7,{}]'' = Inr (JNumber 7 # [JObject []])"
    by (simp add: decodesTo_def)
  from setClient_clearClient_frame [of "decodesTo [JNumber 7, JObject []]" "''[7,{}]''" 7 "[JObject []]"
      "focusedPlugin\<lparr>clientID := 0\<rparr>" NotRawMessage]
    setClient_clearClient_frame [of "decodesTo [JNumber 7, JObject []]" "''[7,{}]''" 7 "[JObject []]"
      focusedPlugin NotRawMessage] h
  show ?thesis by simp
qed

section \<open>The key event translator\<close>

text \<open>
  Claim C4, as stated, fails: a press of Escape followed by its release sends one key
  event only, the \<open>keyup\<close>; the press sends none.
\<close>

theorem escape_press_release_counterexample:
  "sentKeyEvents (snd (pressThenRelease idleEditing quietHost quietHost focusedPlugin KeyEscape 0 0 0)) =
     [\<lparr>KeyCode = 256, Keymap = ''android'', Type = ''keyup'', MetaState = 0\<rparr>]"
  by (simp add: pressThenRelease_def glfwKeyCallback_def keyEvents_def quietHost_def
      KeyEscape_def Press_def Release_def Repeat_def metaState_sum)

text \<open>
  Claim C4, amended: for every key other than Escape and every modifier state at press
  and at release, when a client is focused and the press does not end in a failed
  clipboard read of a paste, the press followed by the release sends exactly two key
  events, \<open>keydown\<close> then \<open>keyup\<close>, with the same \<open>keyCode\<close>, and a press with shift
  held sets bit 0 of \<open>metaState\<close>.
\<close>

theorem press_release_two_key_events:
  assumes "key \<noteq> KeyEscape" and "clientID p \<noteq> 0"
    and "key \<noteq> Paste (keyboardLayout p) \<or> mods1 \<noteq> modifierKey p \<or>
         (\<exists>s. GetClipboardString h1 = Inr s)"
  shows "sentKeyEvents (snd (pressThenRelease ed h1 h2 p key scancode mods1 mods2)) =
           [\<lparr>KeyCode = key, Keymap = ''android'', Type = ''keydown'', MetaState = metaState mods1\<rparr>,
            \<lparr>KeyCode = key, Keymap = ''android'', Type = ''keyup'', MetaState = metaState mods2\<rparr>] \<and>
         (mods1 AND ModShift \<noteq> 0 \<longrightarrow> bit (metaState mods1) 0)"
proof -
  have nr: "\<not> fst (editingSwitch ed h1 p key mods1)"
    using assms(3) editingSwitch_returned [of ed h1 p key mods1] by auto
  obtain p' es where sw: "editingSwitch ed h1 p key mods1 = (False, p', es)"
    using nr by (cases "editingSwitch ed h1 p key mods1") auto
  have es: "sentKeyEvents es = []"
    using editingSwitch_no_key_event [of ed h1 p key mods1] sw by simp
  have press: "glfwKeyCallback ed h1 p key scancode Press mods1 = (p', es @ keyEvents key Press mods1)"
    using assms(1,2) sw by (simp add: glfwKeyCallback_def)
  have release: "glfwKeyCallback ed h2 p' key scancode Release mods2 = (p', keyEvents key Release mods2)"
    by (simp add: glfwKeyCallback_def Release_def Press_def Repeat_def)
  have "sentKeyEvents (snd (pressThenRelease ed h1 h2 p key scancode mods1 mods2)) =
          sentKeyEvents (keyEvents key Press mods1) @ sentKeyEvents (keyEvents key Release mods2)"
    by (simp add: pressThenRelease_def press release sentKeyEvents_append es)
  moreover have "bit (metaState mods1) 0 = (mods1 AND ModShift \<noteq> 0)"
    unfolding metaState_sum by (simp add: bit_iff_odd)
  ultimately show ?thesis
    by (simp add: keyEvents_def Release_def Press_def)
qed

theorem press_release_two_key_events_witness:
  "sentKeyEvents (snd (pressThenRelease idleEditing quietHost quietHost focusedPlugin 65 0 ModShift 0)) =
     [\<lparr>KeyCode = 65, Keymap = ''android'', Type = ''keydown'', MetaState = 1\<rparr>,
      \<lparr>KeyCode = 65, Keymap = ''android'', Type = ''keyup'', MetaState = 0\<rparr>] \<and>
   bit (metaState ModShift) 0"
proof -
  have h1: "(65::int) \<noteq> KeyEscape" by (simp add: KeyEscape_def)
  have h2: "clientID focusedPlugin \<noteq> 0" by (simp add: focusedPlugin_def)
  have h3: "65 \<noteq> Paste (keyboardLayout focusedPlugin) \<or> ModShift \<noteq> modifierKey focusedPlugin \<or>
            (\<exists>s. GetClipboardString quietHost = Inr s)"
    by (simp add: focusedPlugin_def qwertyLayout_def)
  have m: "metaState ModShift = 1" "metaState 0 = 0" "ModShift AND ModShift \<noteq> 0"
    by (simp_all add: metaState_sum ModShift_def ModAlt_def ModControl_def ModSuper_def)
  from press_release_two_key_events [OF h1 h2 h3, of idleEditing quietHost 0 0] m show ?thesis by simp
qed

text \<open>
  Claim C5, as stated, fails: on the default key profile the primary modifier is
  Control, and a modifier set equal to Control is flagged as the word modifier, not as
  the primary modifier.
\<close>

theorem classifyMods_primary_counterexample:
  "modifierKey (InitPlugin ''linux'' focusedPlugin) = ModControl \<and>
   \<not> modsIsModfifier (classifyMods (InitPlugin ''linux'' focusedPlugin) ModControl) \<and>
   modsIsWordModifier (classifyMods (InitPlugin ''linux'' focusedPlugin) ModControl)"
  by (simp add: classifyMods_def noFlags_def InitPlugin_def ModControl_def ModShift_def)

text \<open>
  Claim C5, amended: the held modifier set is classified by the first match in the order
  word-travel-plus-shift, word-travel, primary modifier, shift alone; a set that matches
  none has no flag. At most one of the four flags is set, so the set falls into exactly
  one of the five classes. On every profile other than darwin the primary modifier
  flag is never set, because the word-travel modifier is the same key.
\<close>

theorem classifyMods_first_match:
  "(mods = wordTravellerKeyShift p \<longrightarrow>
      classifyMods p mods = noFlags\<lparr>modsIsWordModifierShift := True\<rparr>) \<and>
   (mods \<noteq> wordTravellerKeyShift p \<and> mods = wordTravellerKey p \<longrightarrow>
      classifyMods p mods = noFlags\<lparr>modsIsWordModifier := True\<rparr>) \<and>
   (mods \<noteq> wordTravellerKeyShift p \<and> mods \<noteq> wordTravellerKey p \<and> mods = modifierKey p \<longrightarrow>
      classifyMods p mods = noFlags\<lparr>modsIsModfifier := True\<rparr>) \<and>
   (mods \<noteq> wordTravellerKeyShift p \<and> mods \<noteq> wordTravellerKey p \<and> mods \<noteq> modifierKey p \<and>
    mods = ModShift \<longrightarrow>
      classifyMods p mods = noFlags\<lparr>modsIsShift := True\<rparr>) \<and>
   (mods \<noteq> wordTravellerKeyShift p \<and> mods \<noteq> wordTravellerKey p \<and> mods \<noteq> modifierKey p \<and>
    mods \<noteq> ModShift \<longrightarrow>
      classifyMods p mods = noFlags) \<and>
   length (filter id [modsIsModfifier (classifyMods p mods), modsIsShift (classifyMods p mods),
                      modsIsWordModifierShift (classifyMods p mods),
                      modsIsWordModifier (classifyMods p mods)]) \<le> 1 \<and>
   (GOOS \<noteq> ''darwin'' \<longrightarrow> \<not> modsIsModfifier (classifyMods (InitPlugin GOOS p) mods))"
  by (simp add: classifyMods_def noFlags_def InitPlugin_def)

theorem classifyMods_first_match_witness:
  "classifyMods (InitPlugin ''darwin'' focusedPlugin) (ModAlt OR ModShift) =
     noFlags\<lparr>modsIsWordModifierShift := True\<rparr> \<and>
   classifyMods (InitPlugin ''darwin'' focusedPlugin) ModAlt =
     noFlags\<lparr>modsIsWordModifier := True\<rparr> \<and>
   classifyMods (InitPlugin ''darwin'' focusedPlugin) ModSuper =
     noFlags\<lparr>modsIsModfifier := True\<rparr> \<and>
   classifyMods (InitPlugin ''darwin'' focusedPlugin) ModShift =
     noFlags\<lparr>modsIsShift := True\<rparr> \<and>
   classifyMods (InitPlugin ''darwin'' focusedPlugin) ModControl = noFlags \<and>
   \<not> modsIsModfifier (classifyMods (InitPlugin ''linux'' focusedPlugin) ModControl)"
proof -
  let ?p = "InitPlugin ''darwin'' focusedPlugin"
  have k: "wordTravellerKeyShift ?p = 5" "wordTravellerKey ?p = 4" "modifierKey ?p = 8"
    by (simp_all add: InitPlugin_def ModAlt_def ModShift_def ModSuper_def)
  have m: "ModAlt OR ModShift = 5" "ModAlt = 4" "ModSuper = 8" "ModShift = 1" "ModControl = 2"
    by (simp_all add: ModAlt_def ModShift_def ModSuper_def ModControl_def)
  have g: "''linux'' \<noteq> ''darwin''" by simp
  show ?thesis
    using classifyMods_first_match [of "ModAlt OR ModShift" ?p "''darwin''"] classifyMods_first_match [of ModAlt ?p "''darwin''"]
      classifyMods_first_match [of ModSuper ?p "''darwin''"] classifyMods_first_match [of ModShift ?p "''darwin''"]
      classifyMods_first_match [of ModControl ?p "''darwin''"] classifyMods_first_match [of ModControl focusedPlugin "''linux''"] g
    unfolding k m by simp
qed

text \<open>
  Claim C6: on every press of Escape the callback invokes \<open>popRoute\<close> on the navigation
  channel (and prints a diagnostic if that fails) and returns: the plugin is unchanged,
  no editing method is called and no key event is sent.
\<close>

theorem escape_press_pops_route:
  "key = KeyEscape \<Longrightarrow> action = Press \<Longrightarrow>
     glfwKeyCallback ed h p key scancode action mods =
       (p, NavigationInvokeMethod ''popRoute'' #
           (case popRouteErr h of
              None \<Rightarrow> []
            | Some err \<Rightarrow>
                [Printf ''go-flutter: failed to pop route after escape key press: %v\<newline>''
                   (ArgError err)])) \<and>
     sentKeyEvents (snd (glfwKeyCallback ed h p key scancode action mods)) = [] \<and>
     (\<forall>c. TextChannelInvoke c \<notin> set (snd (glfwKeyCallback ed h p key scancode action mods)))"
  by (auto simp: glfwKeyCallback_def split: option.splits)

theorem escape_press_pops_route_witness:
  "glfwKeyCallback idleEditing quietHost focusedPlugin KeyEscape 0 Press ModShift =
     (focusedPlugin, [NavigationInvokeMethod ''popRoute'']) \<and>
   sentKeyEvents (snd (glfwKeyCallback idleEditing quietHost focusedPlugin KeyEscape 0 Press ModShift)) = []"
proof -
  have h: "popRouteErr quietHost = None" by (simp add: quietHost_def)
  from escape_press_pops_route [OF refl refl, of idleEditing quietHost focusedPlugin 0 ModShift] h
  show ?thesis by simp
qed

text \<open>
  Claim C7: when a paste is triggered and the clipboard read fails, only the paste is
  aborted and nothing else of the event's processing is suppressed. The editing state is
  indeed unchanged, but the callback returns at once: on a press of the paste key with
  Control held and a failing clipboard the only effect is the diagnostic, while the same
  press with a readable clipboard sends the \<open>keydown\<close> event.
\<close>

theorem paste_failure_drops_key_event:
  "glfwKeyCallback idleEditing failingClipboard focusedPlugin 86 0 Press ModControl =
     (focusedPlugin,
      [Printf ''go-flutter: unable to get the clipboard content: %v\<newline>''
         (ArgError ''clipboard unavailable'')]) \<and>
   glfwKeyCallback idleEditing quietHost focusedPlugin 86 0 Press ModControl =
     (focusedPlugin,
      [KeyEventSend \<lparr>KeyCode = 86, Keymap = ''android'', Type = ''keydown'', MetaState = 4096\<rparr>])"
  by (simp add: glfwKeyCallback_def editingSwitch_def keyEvents_def metaState_sum calls_def
      idleEditing_def failingClipboard_def quietHost_def focusedPlugin_def qwertyLayout_def
      KeyEscape_def KeyEnter_def KeyHome_def KeyEnd_def KeyLeft_def KeyRight_def KeyDelete_def
      KeyBackspace_def Press_def Release_def Repeat_def ModControl_def ModShift_def ModAlt_def
      ModSuper_def)

text \<open>
  Claim C9: the four modifiers contribute the bits 0 (shift), 1 (alt), 12 (control) and
  16 (super) of \<open>metaState\<close>; two modifier states have the same \<open>metaState\<close> exactly
  when they hold the same of these four modifiers, and \<open>metaState\<close> is 0 exactly when
  none of them is held.
\<close>

theorem metaState_injective:
  "(metaState m1 = metaState m2) =
     ((m1 AND ModShift \<noteq> 0) = (m2 AND ModShift \<noteq> 0) \<and>
      (m1 AND ModAlt \<noteq> 0) = (m2 AND ModAlt \<noteq> 0) \<and>
      (m1 AND ModControl \<noteq> 0) = (m2 AND ModControl \<noteq> 0) \<and>
      (m1 AND ModSuper \<noteq> 0) = (m2 AND ModSuper \<noteq> 0)) \<and>
   bit (metaState m1) 0 = (m1 AND ModShift \<noteq> 0) \<and>
   bit (metaState m1) 1 = (m1 AND ModAlt \<noteq> 0) \<and>
   bit (metaState m1) 12 = (m1 AND ModControl \<noteq> 0) \<and>
   bit (metaState m1) 16 = (m1 AND ModSuper \<noteq> 0) \<and>
   (metaState m1 = 0) =
     (m1 AND ModShift = 0 \<and> m1 AND ModAlt = 0 \<and> m1 AND ModControl = 0 \<and> m1 AND ModSuper = 0)"
  unfolding metaState_sum by (simp add: bit_iff_odd)

text \<open>
  Claim C10: a release of Escape is not intercepted: whatever the focus, the callback
  leaves the plugin unchanged and sends one key event of type \<open>keyup\<close> carrying the
  key code of Escape.
\<close>

theorem escape_release_forwarded:
  "key = KeyEscape \<Longrightarrow> action = Release \<Longrightarrow>
     glfwKeyCallback ed h p key scancode action mods =
       (p, [KeyEventSend \<lparr>KeyCode = KeyEscape, Keymap = ''android'', Type = ''keyup'',
                          MetaState = metaState mods\<rparr>])"
  by (simp add: glfwKeyCallback_def keyEvents_def Release_def Press_def Repeat_def)

theorem escape_release_forwarded_witness:
  "glfwKeyCallback idleEditing quietHost focusedPlugin KeyEscape 0 Release 0 =
     (focusedPlugin,
      [KeyEventSend \<lparr>KeyCode = KeyEscape, Keymap = ''android'', Type = ''keyup'',
                     MetaState = metaState 0\<rparr>])"
  by (rule escape_release_forwarded [OF refl refl])

end
